theory Spec2Isabelle
  imports Complex_Main "HOL-Library.Multiset"
begin

section \<open>Errors raised by the modelled code\<close>

text \<open>
  Every exception the modelled Python can raise is a value. The \<open>ValueError\<close>s are kept
  apart by the library call that raises them.
\<close>

datatype error =
    IndexError
  | AttributeError
  | ValueError_target_size
  | ValueError_zero_dim
  | ValueError_need_array
  | ValueError_shape
  | ValueError_high

section \<open>The criterion: \<open>binary_cross_entropy.py\<close>\<close>

subsection \<open>Data\<close>

text \<open>
  The batch dictionary \<open>sample\<close>: the optional key \<open>sample_size\<close>, the nested dictionary
  \<open>net_input\<close> with its optional key \<open>mask_indices\<close> (a boolean tensor), and \<open>id\<close>, of which
  only the number of elements is read.
\<close>

record net_input =
  mask_indices :: "bool list option"

record sample =
  sample_size :: "int option"
  net_input :: net_input
  id_numel :: nat

text \<open>
  The dictionary \<open>logging_output\<close>. Every key is optional, since \<open>reduce_metrics\<close> reads each
  one with \<open>log.get(key, 0)\<close>; a field \<open>lo_k\<close> holds the value under key \<open>k\<close>. Python integers
  are \<open>int\<close>; Python floats (\<open>loss\<close>, \<open>count\<close>) are real numbers, so the rounding of IEEE
  arithmetic is not part of the model. Arrays are one-dimensional.
\<close>

record logging_output =
  lo_loss :: "real option"
  lo_nsignals :: "int option"
  lo_sample_size :: "int option"
  lo_correct :: "int option"
  lo_count :: "real option"
  lo_tp :: "int option"
  lo_fp :: "int option"
  lo_tn :: "int option"
  lo_fn :: "int option"
  lo_y_true :: "real list option"
  lo_y_score :: "real list option"

text \<open>The two attributes of the criterion that \<open>forward\<close> reads besides the weight.\<close>

record criterion =
  report_auc :: bool
  training :: bool

subsection \<open>\<open>forward\<close>\<close>

text \<open>\<open>tensor.long()\<close>: conversion of a float to an integer truncates toward zero.\<close>

definition long :: "real \<Rightarrow> int" where
  "long x = (if 0 \<le> x then \<lfloor>x\<rfloor> else \<lceil>x\<rceil>)"

text \<open>Lines 64 to 69: the three-way choice of the sample size.\<close>

definition forward_sample_size :: "sample \<Rightarrow> real list \<Rightarrow> int" where
  "forward_sample_size smp target =
     (case sample_size smp of
        Some s \<Rightarrow> s
      | None \<Rightarrow>
          (case mask_indices (net_input smp) of
             Some m \<Rightarrow> int (length (filter id m))
           | None \<Rightarrow> sum_list (map long target)))"

text \<open>
  \<open>outputs[torch.where(target == v)]\<close>: the predictions at the positions whose target
  equals \<open>v\<close>, in order.
\<close>

definition select_where :: "bool list \<Rightarrow> real list \<Rightarrow> real \<Rightarrow> bool list" where
  "select_where outputs target v = map fst (filter (\<lambda>(out, t). t = v) (zip outputs target))"

text \<open>\<open>.sum()\<close> of a boolean tensor counts its true entries.\<close>

definition bool_sum :: "bool list \<Rightarrow> int" where
  "bool_sum bs = int (length (filter id bs))"

text \<open>
  \<open>(outputs == target).sum()\<close>: the boolean prediction is promoted to the float \<open>1.0\<close> or
  \<open>0.0\<close> and compared with the target.
\<close>

definition eq_sum :: "bool list \<Rightarrow> real list \<Rightarrow> int" where
  "eq_sum outputs target =
     int (length (filter (\<lambda>(out, t). (if out then 1 else 0) = t) (zip outputs target)))"

text \<open>Line 79, \<open>outputs = (probs > 0.5)\<close>: the comparison is strict.\<close>

definition binarize :: "real list \<Rightarrow> bool list" where
  "binarize probs = map (\<lambda>p. p > 1 / 2) probs"

text \<open>
  \<open>forward\<close> with \<open>reduce = True\<close>. The model's forward pass, the sigmoid and
  \<open>F.binary_cross_entropy\<close> are library code: \<open>probs\<close> is the tensor \<open>torch.sigmoid(logits)\<close>
  (flattened), \<open>target\<close> the tensor of targets and \<open>loss\<close> the summed loss that
  \<open>F.binary_cross_entropy\<close> returns for them. That call raises when the two sizes differ.

  On an empty batch lines 82 to 87 bind \<open>tp\<close>, \<open>fp\<close>, \<open>tn\<close> and \<open>fn\<close> to the Python integer \<open>0\<close>,
  and line 102 then calls \<open>tp.item()\<close> on it, which raises \<open>AttributeError\<close>: a Python integer
  has no method \<open>item\<close>.
\<close>

definition forward ::
  "criterion \<Rightarrow> sample \<Rightarrow> real list \<Rightarrow> real list \<Rightarrow> real
     \<Rightarrow> error + (real \<times> int \<times> logging_output)" where
  "forward self smp probs target loss =
     (if length probs \<noteq> length target then Inl ValueError_target_size
      else
        let ssize = forward_sample_size smp target;
            outputs = binarize probs
        in
          if length probs = 0 then Inl AttributeError
          else
            let count = real (length probs);
                corr = eq_sum outputs target;
                tp = bool_sum (select_where outputs target 1);
                fn = int (length (select_where outputs target 1)) - tp;
                fp = bool_sum (select_where outputs target 0);
                tn = int (length (select_where outputs target 0)) - fp;
                auc = (\<not> training self \<and> report_auc self)
            in Inr (loss, ssize,
                 \<lparr> lo_loss = Some loss,
                   lo_nsignals = Some (int (id_numel smp)),
                   lo_sample_size = Some ssize,
                   lo_correct = Some corr,
                   lo_count = Some count,
                   lo_tp = Some tp,
                   lo_fp = Some fp,
                   lo_tn = Some tn,
                   lo_fn = Some fn,
                   lo_y_true = (if auc then Some target else None),
                   lo_y_score = (if auc then Some probs else None) \<rparr>))"

subsection \<open>The metrics sink\<close>

text \<open>
  The modules \<open>metrics\<close> and \<open>meters\<close> are not among the sources. \<open>reduce_metrics\<close> only calls
  them, so a run of it is the list of the calls it makes, in order, with the exception that
  ends it, if any. A derived metric is registered as a function of the meters, as the lambdas
  of the source are; of a meter such a function reads \<open>.sum\<close>, \<open>.auroc\<close> or \<open>.auprc\<close>.
\<close>

datatype fval = Num real | NaN

record meters =
  sum_of :: "string \<Rightarrow> real"
  auroc_of :: "string \<Rightarrow> fval"
  auprc_of :: "string \<Rightarrow> fval"

text \<open>
  \<open>LogScalar key value weight round\<close> is \<open>metrics.log_scalar(key, value, weight, round=round)\<close>
  (the weight is 1 and the rounding absent unless given), \<open>LogCustom key y_score y_true\<close> is
  \<open>metrics.log_custom(meters.AUCMeter, key, y_score, y_true)\<close>, and \<open>LogDerived key fn\<close> is
  \<open>metrics.log_derived(key, fn)\<close>.
\<close>

datatype metric_call =
    LogScalar string real real "nat option"
  | LogCustom string "real list" "real list"
  | LogDerived string "meters \<Rightarrow> fval"

text \<open>
  Modelled from the spec: \<open>safe_round\<close> of \<open>fairseq_signals.logging.meters\<close> is missing from
  the sources; the spec has the ratios "rounded to 5 decimals" and the areas "rounded to 3
  decimals". Python rounds a tie to the even neighbour.
\<close>

definition round_half_even :: "real \<Rightarrow> int" where
  "round_half_even x =
     (let f = \<lfloor>x\<rfloor> in
      if x - of_int f < 1 / 2 then f
      else if x - of_int f > 1 / 2 then f + 1
      else if even f then f else f + 1)"

definition safe_round :: "real \<Rightarrow> nat \<Rightarrow> real" where
  "safe_round number ndigits = of_int (round_half_even (number * 10 ^ ndigits)) / 10 ^ ndigits"

fun safe_round_fval :: "fval \<Rightarrow> nat \<Rightarrow> fval" where
  "safe_round_fval (Num x) ndigits = Num (safe_round x ndigits)"
| "safe_round_fval NaN ndigits = NaN"

text \<open>
  Modelled from the spec: the sink is missing from the sources; the spec asks of it "scalar
  registration per metric name within a reporting interval and derived (lazily computed)
  metrics that read back previously registered scalar sums". \<open>meter_sum cs key\<close> is the sum
  a fresh sink holds under \<open>key\<close> after the calls \<open>cs\<close>, \<open>derived_fn cs key\<close> the function
  registered under \<open>key\<close> (the first registration stays), and \<open>derived_value\<close> what that
  function reads back; \<open>None\<close> is a metric that was never registered.
\<close>

fun meter_sum :: "metric_call list \<Rightarrow> string \<Rightarrow> real" where
  "meter_sum [] key = 0"
| "meter_sum (LogScalar k v w r # cs) key = (if k = key then v else 0) + meter_sum cs key"
| "meter_sum (LogCustom k ys yt # cs) key = meter_sum cs key"
| "meter_sum (LogDerived k f # cs) key = meter_sum cs key"

fun derived_fn :: "metric_call list \<Rightarrow> string \<Rightarrow> (meters \<Rightarrow> fval) option" where
  "derived_fn [] key = None"
| "derived_fn (LogDerived k f # cs) key = (if k = key then Some f else derived_fn cs key)"
| "derived_fn (LogScalar k v w r # cs) key = derived_fn cs key"
| "derived_fn (LogCustom k ys yt # cs) key = derived_fn cs key"

definition derived_value ::
  "metric_call list \<Rightarrow> (string \<Rightarrow> fval) \<Rightarrow> (string \<Rightarrow> fval) \<Rightarrow> string \<Rightarrow> fval option" where
  "derived_value cs au ap key =
     map_option (\<lambda>f. f \<lparr>sum_of = meter_sum cs, auroc_of = au, auprc_of = ap\<rparr>)
       (derived_fn cs key)"

text \<open>The scalar registrations among the calls, in order.\<close>

fun scalar_calls :: "metric_call list \<Rightarrow> metric_call list" where
  "scalar_calls [] = []"
| "scalar_calls (LogScalar k v w r # cs) = LogScalar k v w r # scalar_calls cs"
| "scalar_calls (LogCustom k ys yt # cs) = scalar_calls cs"
| "scalar_calls (LogDerived k f # cs) = scalar_calls cs"

subsection \<open>\<open>reduce_metrics\<close>\<close>

text \<open>\<open>log.get(key, default)\<close> on an optional field.\<close>

definition dict_get :: "'a option \<Rightarrow> 'a \<Rightarrow> 'a" where
  "dict_get v d = (case v of Some x \<Rightarrow> x | None \<Rightarrow> d)"

text \<open>
  \<open>np.concatenate\<close> of the values \<open>log.get(key, 0)\<close>: a missing key gives the integer \<open>0\<close>,
  which \<open>np.concatenate\<close> refuses as a zero-dimensional array; an empty sequence of arrays is
  refused as well.
\<close>

definition np_concatenate :: "real list option list \<Rightarrow> error + real list" where
  "np_concatenate arrays =
     (if arrays = [] then Inl ValueError_need_array
      else if None \<in> set arrays then Inl ValueError_zero_dim
      else Inr (concat (map (\<lambda>a. dict_get a []) arrays)))"

text \<open>The lambdas of lines 138 to 146 and 169 to 191.\<close>

definition auroc_fn :: "meters \<Rightarrow> fval" where
  "auroc_fn meters = safe_round_fval (auroc_of meters ''_auc'') 3"

definition auprc_fn :: "meters \<Rightarrow> fval" where
  "auprc_fn meters = safe_round_fval (auprc_of meters ''_auc'') 3"

definition accuracy_fn :: "meters \<Rightarrow> fval" where
  "accuracy_fn meters =
     (if sum_of meters ''_total'' > 0
      then Num (safe_round (sum_of meters ''_correct'' / sum_of meters ''_total'') 5)
      else NaN)"

definition precision_fn :: "meters \<Rightarrow> fval" where
  "precision_fn meters =
     (if sum_of meters ''_tp'' + sum_of meters ''_fp'' > 0
      then Num (safe_round
             (sum_of meters ''_tp'' / (sum_of meters ''_tp'' + sum_of meters ''_fp'')) 5)
      else NaN)"

definition recall_fn :: "meters \<Rightarrow> fval" where
  "recall_fn meters =
     (if sum_of meters ''_tp'' + sum_of meters ''_fn'' > 0
      then Num (safe_round
             (sum_of meters ''_tp'' / (sum_of meters ''_tp'' + sum_of meters ''_fn'')) 5)
      else NaN)"

text \<open>
  Lines 129 to 147. The test reads the first entry only; the caller has made sure that there
  is one. \<open>y_true\<close> is concatenated before \<open>y_score\<close>.
\<close>

definition log_auc :: "logging_output \<Rightarrow> logging_output list \<Rightarrow> error + metric_call list" where
  "log_auc log0 logging_outputs =
     (if lo_y_true log0 \<noteq> None \<and> lo_y_score log0 \<noteq> None then
        (case np_concatenate (map lo_y_true logging_outputs) of
           Inl e \<Rightarrow> Inl e
         | Inr y_true \<Rightarrow>
             (case np_concatenate (map lo_y_score logging_outputs) of
                Inl e \<Rightarrow> Inl e
              | Inr y_score \<Rightarrow>
                  Inr (LogCustom ''_auc'' y_score y_true #
                       (if length y_true > 0
                        then [LogDerived ''auroc'' auroc_fn, LogDerived ''auprc'' auprc_fn]
                        else []))))
      else Inr [])"

text \<open>The sums of lines 116 to 123 and 151 to 163.\<close>

definition loss_sum :: "logging_output list \<Rightarrow> real" where
  "loss_sum logging_outputs = sum_list (map (\<lambda>log. dict_get (lo_loss log) 0) logging_outputs)"

definition nsignals_sum :: "logging_output list \<Rightarrow> int" where
  "nsignals_sum logging_outputs =
     sum_list (map (\<lambda>log. dict_get (lo_nsignals log) 0) logging_outputs)"

definition sample_size_sum :: "logging_output list \<Rightarrow> int" where
  "sample_size_sum logging_outputs =
     sum_list (map (\<lambda>log. dict_get (lo_sample_size log) 0) logging_outputs)"

definition correct_sum :: "logging_output list \<Rightarrow> int" where
  "correct_sum logging_outputs =
     sum_list (map (\<lambda>log. dict_get (lo_correct log) 0) logging_outputs)"

definition total_sum :: "logging_output list \<Rightarrow> real" where
  "total_sum logging_outputs = sum_list (map (\<lambda>log. dict_get (lo_count log) 0) logging_outputs)"

definition tp_sum :: "logging_output list \<Rightarrow> int" where
  "tp_sum logging_outputs = sum_list (map (\<lambda>log. dict_get (lo_tp log) 0) logging_outputs)"

definition fp_sum :: "logging_output list \<Rightarrow> int" where
  "fp_sum logging_outputs = sum_list (map (\<lambda>log. dict_get (lo_fp log) 0) logging_outputs)"

definition tn_sum :: "logging_output list \<Rightarrow> int" where
  "tn_sum logging_outputs = sum_list (map (\<lambda>log. dict_get (lo_tn log) 0) logging_outputs)"

definition fn_sum :: "logging_output list \<Rightarrow> int" where
  "fn_sum logging_outputs = sum_list (map (\<lambda>log. dict_get (lo_fn log) 0) logging_outputs)"

text \<open>
  Lines 125 to 127. \<open>sample_size or 1\<close> is 1 when the sum is 0 and the sum itself otherwise.
\<close>

definition loss_call :: "logging_output list \<Rightarrow> metric_call" where
  "loss_call logging_outputs =
     (let sample_size = sample_size_sum logging_outputs in
      LogScalar ''loss''
        (loss_sum logging_outputs / (if sample_size = 0 then 1 else of_int sample_size) / ln 2)
        (of_int sample_size) (Some 3))"

text \<open>Lines 149 to 164.\<close>

definition count_calls :: "logging_output list \<Rightarrow> metric_call list" where
  "count_calls logging_outputs =
     [LogScalar ''nsignals'' (of_int (nsignals_sum logging_outputs)) 1 None,
      LogScalar ''_correct'' (of_int (correct_sum logging_outputs)) 1 None,
      LogScalar ''_total'' (total_sum logging_outputs) 1 None,
      LogScalar ''_tp'' (of_int (tp_sum logging_outputs)) 1 None,
      LogScalar ''_fp'' (of_int (fp_sum logging_outputs)) 1 None,
      LogScalar ''_tn'' (of_int (tn_sum logging_outputs)) 1 None,
      LogScalar ''_fn'' (of_int (fn_sum logging_outputs)) 1 None]"

text \<open>Lines 166 to 192.\<close>

definition ratio_calls :: "logging_output list \<Rightarrow> metric_call list" where
  "ratio_calls logging_outputs =
     (if total_sum logging_outputs > 0
      then [LogDerived ''accuracy'' accuracy_fn,
            LogDerived ''precision'' precision_fn,
            LogDerived ''recall'' recall_fn]
      else [])"

text \<open>
  \<open>reduce_metrics\<close>: the calls made on the sink, in order, and the exception raised, if any.
  The loss is logged before \<open>logging_outputs[0]\<close> is read, so that call is made even when the
  index fails.
\<close>

definition reduce_metrics :: "logging_output list \<Rightarrow> metric_call list \<times> error option" where
  "reduce_metrics logging_outputs =
     (case logging_outputs of
        [] \<Rightarrow> ([loss_call logging_outputs], Some IndexError)
      | log0 # _ \<Rightarrow>
          (case log_auc log0 logging_outputs of
             Inl e \<Rightarrow> ([loss_call logging_outputs], Some e)
           | Inr auc_calls \<Rightarrow>
               (loss_call logging_outputs # auc_calls
                  @ count_calls logging_outputs @ ratio_calls logging_outputs,
                None)))"

text \<open>Lines 194 to 201.\<close>

definition logging_outputs_can_be_summed :: "unit \<Rightarrow> bool" where
  "logging_outputs_can_be_summed _ = False"

text \<open>
  One bundle that holds the pooled counts of a sequence: every additive field is the sum over
  the sequence, and the bundle carries no arrays.
\<close>

definition pooled :: "logging_output list \<Rightarrow> logging_output" where
  "pooled logging_outputs =
     \<lparr> lo_loss = Some (loss_sum logging_outputs),
       lo_nsignals = Some (nsignals_sum logging_outputs),
       lo_sample_size = Some (sample_size_sum logging_outputs),
       lo_correct = Some (correct_sum logging_outputs),
       lo_count = Some (total_sum logging_outputs),
       lo_tp = Some (tp_sum logging_outputs),
       lo_fp = Some (fp_sum logging_outputs),
       lo_tn = Some (tn_sum logging_outputs),
       lo_fn = Some (fn_sum logging_outputs),
       lo_y_true = None,
       lo_y_score = None \<rparr>"

section \<open>The preprocessing script: \<open>preprocess_pad_ecgiddb.py\<close>\<close>

text \<open>
  \<open>np.random.randint(high)\<close> raises when \<open>high\<close> is not positive and otherwise draws from
  \<open>0 \<le> start < high\<close>: \<open>r\<close> is the generator's raw draw, reduced into the range.
\<close>

definition randint :: "int \<Rightarrow> int \<Rightarrow> error + int" where
  "randint high r = (if high \<le> 0 then Inl ValueError_high else Inr (r mod high))"

text \<open>
  \<open>xs[start:stop]\<close>: a negative index counts from the end, and both indices are clipped to the
  sequence.
\<close>

definition py_slice :: "'a list \<Rightarrow> int \<Rightarrow> int \<Rightarrow> 'a list" where
  "py_slice xs start stop =
     (let n = int (length xs);
          a = (if start < 0 then max (start + n) 0 else min start n);
          b = (if stop < 0 then max (stop + n) 0 else min stop n)
      in take (nat (b - a)) (drop (nat a) xs))"

text \<open>
  \<open>np.concatenate((a, b))\<close> of two matrices, each a list of rows: the rows of \<open>a\<close> and of \<open>b\<close>
  must have one width.
\<close>

definition concatenate_rows :: "real list list \<Rightarrow> real list list \<Rightarrow> error + real list list" where
  "concatenate_rows a b =
     (if list_all (\<lambda>r. list_all (\<lambda>q. length r = length q) b) a
      then Inr (a @ b) else Inl ValueError_shape)"

text \<open>
  The body of the loop of \<open>main\<close> for one file (lines 59 to 90): \<open>sec\<close> is \<open>args.sec\<close>,
  \<open>sample_rate\<close> the annotation's \<open>fs\<close>, \<open>record\<close> the raw signal and \<open>r\<close> the random draw.
  \<open>Inr None\<close> is the \<open>continue\<close> of line 68, \<open>Inr (Some feats)\<close> the file written with \<open>feats\<close>.
\<close>

definition convert_file :: "int \<Rightarrow> int \<Rightarrow> real list \<Rightarrow> int \<Rightarrow> error + real list list option" where
  "convert_file sec sample_rate record r =
     (if sample_rate \<noteq> 500 then Inr None
      else
        let len = int (length record);
            zeros = replicate 11 (replicate 2500 0)
        in
          case randint (len - sec * sample_rate) r of
            Inl e \<Rightarrow> Inl e
          | Inr start \<Rightarrow>
              (case concatenate_rows [py_slice record start (start + sec * sample_rate)] zeros of
                 Inl e \<Rightarrow> Inl e
               | Inr feats \<Rightarrow> Inr (Some feats)))"

section \<open>Notions used in the statements\<close>

text \<open>An entry carries the raw targets and the raw scores when it has both keys.\<close>

definition carries :: "logging_output \<Rightarrow> bool" where
  "carries entry \<longleftrightarrow> lo_y_true entry \<noteq> None \<and> lo_y_score entry \<noteq> None"

text \<open>A bundle of the nine additive statistics, without arrays.\<close>

abbreviation stats ::
  "real \<Rightarrow> int \<Rightarrow> int \<Rightarrow> int \<Rightarrow> real \<Rightarrow> int \<Rightarrow> int \<Rightarrow> int \<Rightarrow> int \<Rightarrow> logging_output" where
  "stats l n s c k tp fp tn fn \<equiv>
     \<lparr>lo_loss = Some l, lo_nsignals = Some n, lo_sample_size = Some s, lo_correct = Some c,
      lo_count = Some k, lo_tp = Some tp, lo_fp = Some fp, lo_tn = Some tn, lo_fn = Some fn,
      lo_y_true = None, lo_y_score = None\<rparr>"

section \<open>Properties of \<open>forward\<close>\<close>

lemma forward_Inr_iff:
  "(\<exists>r. forward self smp probs target loss = Inr r)
     \<longleftrightarrow> length probs = length target \<and> probs \<noteq> []"
  by (auto simp: forward_def Let_def)

lemmas forward_eval =
  forward_def Let_def binarize_def select_where_def bool_sum_def eq_sum_def
  forward_sample_size_def long_def

text \<open>
  The scores \<open>[0.9, 0.2, 0.6, 0.1]\<close> with the targets \<open>[1, 0, 1, 0]\<close>: two true positives, two
  true negatives, no false cell.
\<close>

lemma forward_example_cells:
  "forward \<lparr>report_auc = False, training = True\<rparr>
     \<lparr>sample_size = None, net_input = \<lparr>mask_indices = None\<rparr>, id_numel = 4\<rparr>
     [9 / 10, 2 / 10, 6 / 10, 1 / 10] [1, 0, 1, 0] 1
   = Inr (1, 2,
       \<lparr>lo_loss = Some 1, lo_nsignals = Some 4, lo_sample_size = Some 2, lo_correct = Some 4,
        lo_count = Some 4, lo_tp = Some 2, lo_fp = Some 0, lo_tn = Some 2, lo_fn = Some 0,
        lo_y_true = None, lo_y_score = None\<rparr>)"
  by (simp add: forward_eval)

text \<open>The two partitions cover a batch of hard labels, and each position falls in one.\<close>

lemma select_where_lengths:
  assumes "length outputs = length target" and "\<forall>t\<in>set target. t = 0 \<or> t = 1"
  shows "length (select_where outputs target 1) + length (select_where outputs target 0)
           = length target"
  using assms
  by (induction outputs target rule: list_induct2) (auto simp: select_where_def)

text \<open>
  A prediction equals its target exactly when it is a positive in the partition of the ones or
  a negative in the partition of the zeros; a target that is neither \<open>0\<close> nor \<open>1\<close> equals no
  prediction.
\<close>

lemma eq_sum_cells:
  assumes "length outputs = length target"
  shows "eq_sum outputs target =
           bool_sum (select_where outputs target 1)
           + (int (length (select_where outputs target 0))
              - bool_sum (select_where outputs target 0))"
  using assms
  by (induction outputs target rule: list_induct2)
     (auto simp: select_where_def eq_sum_def bool_sum_def)



text \<open>
  Claim C3, as amended. For every batch, the bundle that \<open>forward\<close> returns has \<open>correct\<close>
  equal to \<open>tp + tn\<close>, and it has \<open>count\<close> equal to \<open>tp + fp + tn + fn\<close> whenever \<open>count\<close> is
  positive and the targets are all exactly \<open>0\<close> or \<open>1\<close>.
\<close>

theorem forward_confusion_invariant:
  assumes "forward self smp probs target loss = Inr (l, s, lo)"
  shows "\<exists>c k tp fp tn fn.
           lo_correct lo = Some c \<and> lo_count lo = Some k \<and> lo_tp lo = Some tp \<and>
           lo_fp lo = Some fp \<and> lo_tn lo = Some tn \<and> lo_fn lo = Some fn \<and>
           c = tp + tn \<and>
           (0 < k \<and> (\<forall>t\<in>set target. t = 0 \<or> t = 1) \<longrightarrow> k = of_int (tp + fp + tn + fn))"
proof -
  from assms have len: "length probs = length target"
    by (auto simp: forward_def Let_def split: if_splits)
  let ?outputs = "binarize probs"
  have lo: "length ?outputs = length target"
    by (simp add: len binarize_def)
  have cells: "int (length (select_where ?outputs target 1))
                 + int (length (select_where ?outputs target 0)) = int (length probs)"
    if "\<forall>t\<in>set target. t = 0 \<or> t = 1"
    using select_where_lengths [OF lo that] len by linarith
  have corr: "eq_sum ?outputs target =
           bool_sum (select_where ?outputs target 1)
           + (int (length (select_where ?outputs target 0))
              - bool_sum (select_where ?outputs target 0))"
    by (rule eq_sum_cells [OF lo])
  from assms have
    "lo_correct lo = Some (eq_sum ?outputs target)"
    "lo_count lo = Some (real (length probs))"
    "lo_tp lo = Some (bool_sum (select_where ?outputs target 1))"
    "lo_fp lo = Some (bool_sum (select_where ?outputs target 0))"
    "lo_tn lo = Some (int (length (select_where ?outputs target 0))
                      - bool_sum (select_where ?outputs target 0))"
    "lo_fn lo = Some (int (length (select_where ?outputs target 1))
                      - bool_sum (select_where ?outputs target 1))"
    by (auto simp: forward_def Let_def split: if_splits)
  then show ?thesis using cells corr
    by auto
qed

theorem forward_confusion_invariant_witness:
  "forward \<lparr>report_auc = False, training = True\<rparr>
     \<lparr>sample_size = None, net_input = \<lparr>mask_indices = None\<rparr>, id_numel = 4\<rparr>
     [9 / 10, 2 / 10, 6 / 10, 1 / 10] [1, 0, 1, 0] 1
   = Inr (1, 2,
       \<lparr>lo_loss = Some 1, lo_nsignals = Some 4, lo_sample_size = Some 2, lo_correct = Some 4,
        lo_count = Some 4, lo_tp = Some 2, lo_fp = Some 0, lo_tn = Some 2, lo_fn = Some 0,
        lo_y_true = None, lo_y_score = None\<rparr>)
   \<and> (4::real) = of_int (2 + 0 + 2 + 0) \<and> (4::int) = 2 + 2"
proof -
  have run: "forward \<lparr>report_auc = False, training = True\<rparr>
     \<lparr>sample_size = None, net_input = \<lparr>mask_indices = None\<rparr>, id_numel = 4\<rparr>
     [9 / 10, 2 / 10, 6 / 10, 1 / 10] [1, 0, 1, 0] 1
   = Inr (1, 2,
       \<lparr>lo_loss = Some 1, lo_nsignals = Some 4, lo_sample_size = Some 2, lo_correct = Some 4,
        lo_count = Some 4, lo_tp = Some 2, lo_fp = Some 0, lo_tn = Some 2, lo_fn = Some 0,
        lo_y_true = None, lo_y_score = None\<rparr>)"
    by (simp add: forward_eval)
  from forward_confusion_invariant [OF run] run show ?thesis
    by simp
qed

text \<open>
  Claim C3 as stated fails on a soft label: the score \<open>0.9\<close> with the target \<open>0.5\<close> is a batch
  of one element that belongs to neither partition, so \<open>count\<close> is 1 and the four cells are 0.
\<close>

theorem forward_confusion_soft_target_counterexample:
  "forward \<lparr>report_auc = False, training = True\<rparr>
     \<lparr>sample_size = None, net_input = \<lparr>mask_indices = None\<rparr>, id_numel = 1\<rparr>
     [9 / 10] [1 / 2] 1
   = Inr (1, 0,
       \<lparr>lo_loss = Some 1, lo_nsignals = Some 1, lo_sample_size = Some 0, lo_correct = Some 0,
        lo_count = Some 1, lo_tp = Some 0, lo_fp = Some 0, lo_tn = Some 0, lo_fn = Some 0,
        lo_y_true = None, lo_y_score = None\<rparr>)
   \<and> (1::real) \<noteq> of_int (0 + 0 + 0 + 0)"
  by (simp add: forward_eval)

text \<open>
  Claim C4. On the empty batch \<open>forward\<close> does not return the zero statistics: it raises
  \<open>AttributeError\<close>.
\<close>

theorem forward_empty_batch_raises:
  "forward self smp [] [] loss = Inl AttributeError"
  by (simp add: forward_def Let_def)

section \<open>Properties of \<open>reduce_metrics\<close>\<close>


lemma sum_list_map_mset:
  fixes f :: "'a \<Rightarrow> 'b::comm_monoid_add"
  assumes "mset xs = mset ys"
  shows "sum_list (map f xs) = sum_list (map f ys)"
  by (metis assms mset_map sum_mset_sum_list)

lemma sums_permute:
  assumes "mset logs' = mset logs"
  shows "loss_sum logs' = loss_sum logs" "nsignals_sum logs' = nsignals_sum logs"
    "sample_size_sum logs' = sample_size_sum logs" "correct_sum logs' = correct_sum logs"
    "total_sum logs' = total_sum logs" "tp_sum logs' = tp_sum logs" "fp_sum logs' = fp_sum logs"
    "tn_sum logs' = tn_sum logs" "fn_sum logs' = fn_sum logs"
  unfolding loss_sum_def nsignals_sum_def sample_size_sum_def correct_sum_def total_sum_def
    tp_sum_def fp_sum_def tn_sum_def fn_sum_def
  by (rule sum_list_map_mset [OF assms])+

lemma calls_permute:
  assumes "mset logs' = mset logs"
  shows "loss_call logs' = loss_call logs" "count_calls logs' = count_calls logs"
    "ratio_calls logs' = ratio_calls logs"
  by (simp_all add: loss_call_def count_calls_def ratio_calls_def sums_permute [OF assms])

lemma scalar_calls_append: "scalar_calls (xs @ ys) = scalar_calls xs @ scalar_calls ys"
  by (induction xs rule: scalar_calls.induct) simp_all

lemma meter_sum_append: "meter_sum (xs @ ys) key = meter_sum xs key + meter_sum ys key"
  by (induction xs key rule: meter_sum.induct) simp_all

lemma derived_fn_append:
  "derived_fn (xs @ ys) key =
     (case derived_fn xs key of Some f \<Rightarrow> Some f | None \<Rightarrow> derived_fn ys key)"
  by (induction xs key rule: derived_fn.induct) simp_all

lemma log_auc_scalar: "log_auc log0 logs = Inr cs \<Longrightarrow> scalar_calls cs = []"
  by (auto simp: log_auc_def split: if_splits sum.splits)

lemma log_auc_meter_sum: "log_auc log0 logs = Inr cs \<Longrightarrow> meter_sum cs key = 0"
  by (auto simp: log_auc_def split: if_splits sum.splits)

lemma log_auc_derived:
  "log_auc log0 logs = Inr cs \<Longrightarrow> key \<noteq> ''auroc'' \<Longrightarrow> key \<noteq> ''auprc'' \<Longrightarrow> derived_fn cs key = None"
  by (auto simp: log_auc_def split: if_splits sum.splits)

lemma reduce_metrics_returns:
  assumes "snd (reduce_metrics logs) = None"
  obtains log0 rest cs where "logs = log0 # rest" "log_auc log0 logs = Inr cs"
    "fst (reduce_metrics logs) = loss_call logs # cs @ count_calls logs @ ratio_calls logs"
  using assms
  by (auto simp: reduce_metrics_def split: list.splits sum.splits)

lemma scalar_calls_reduce:
  assumes "snd (reduce_metrics logs) = None"
  shows "scalar_calls (fst (reduce_metrics logs)) = loss_call logs # count_calls logs"
proof -
  from assms obtain log0 rest cs where "log_auc log0 logs = Inr cs"
    and "fst (reduce_metrics logs) = loss_call logs # cs @ count_calls logs @ ratio_calls logs"
    by (rule reduce_metrics_returns)
  then show ?thesis
    by (simp add: scalar_calls_append log_auc_scalar loss_call_def Let_def count_calls_def ratio_calls_def)
qed


lemma meter_sum_reduce:
  assumes "snd (reduce_metrics logs) = None" and "key \<noteq> ''loss''"
  shows "meter_sum (fst (reduce_metrics logs)) key = meter_sum (count_calls logs) key"
proof -
  from assms(1) obtain log0 rest cs where "log_auc log0 logs = Inr cs"
    and "fst (reduce_metrics logs) = loss_call logs # cs @ count_calls logs @ ratio_calls logs"
    by (rule reduce_metrics_returns)
  then show ?thesis using assms(2)
    by (simp add: meter_sum_append log_auc_meter_sum loss_call_def Let_def ratio_calls_def)
qed

lemma derived_fn_reduce:
  assumes "snd (reduce_metrics logs) = None" and "key \<noteq> ''auroc''" and "key \<noteq> ''auprc''"
  shows "derived_fn (fst (reduce_metrics logs)) key = derived_fn (ratio_calls logs) key"
proof -
  from assms(1) obtain log0 rest cs where "log_auc log0 logs = Inr cs"
    and "fst (reduce_metrics logs) = loss_call logs # cs @ count_calls logs @ ratio_calls logs"
    by (rule reduce_metrics_returns)
  then show ?thesis using assms(2,3)
    by (simp add: derived_fn_append log_auc_derived loss_call_def Let_def count_calls_def)
qed

lemma accuracy_reduce:
  assumes "snd (reduce_metrics logs) = None"
  shows "derived_value (fst (reduce_metrics logs)) au ap ''accuracy'' =
           (if total_sum logs > 0
            then Some (Num (safe_round (of_int (correct_sum logs) / total_sum logs) 5))
            else None)"
  by (simp add: derived_value_def derived_fn_reduce [OF assms] meter_sum_reduce [OF assms]
        ratio_calls_def count_calls_def accuracy_fn_def)

lemma precision_reduce:
  assumes "snd (reduce_metrics logs) = None"
  shows "derived_value (fst (reduce_metrics logs)) au ap ''precision'' =
           (if total_sum logs > 0
            then Some (if tp_sum logs + fp_sum logs > 0
                       then Num (safe_round
                              (of_int (tp_sum logs) / of_int (tp_sum logs + fp_sum logs)) 5)
                       else NaN)
            else None)"
  by (simp add: derived_value_def derived_fn_reduce [OF assms] meter_sum_reduce [OF assms]
        ratio_calls_def count_calls_def precision_fn_def)

lemma recall_reduce:
  assumes "snd (reduce_metrics logs) = None"
  shows "derived_value (fst (reduce_metrics logs)) au ap ''recall'' =
           (if total_sum logs > 0
            then Some (if tp_sum logs + fn_sum logs > 0
                       then Num (safe_round
                              (of_int (tp_sum logs) / of_int (tp_sum logs + fn_sum logs)) 5)
                       else NaN)
            else None)"
  by (simp add: derived_value_def derived_fn_reduce [OF assms] meter_sum_reduce [OF assms]
        ratio_calls_def count_calls_def recall_fn_def)

lemma pooled_sums:
  "loss_sum [pooled logs] = loss_sum logs" "nsignals_sum [pooled logs] = nsignals_sum logs"
  "sample_size_sum [pooled logs] = sample_size_sum logs"
  "correct_sum [pooled logs] = correct_sum logs" "total_sum [pooled logs] = total_sum logs"
  "tp_sum [pooled logs] = tp_sum logs" "fp_sum [pooled logs] = fp_sum logs"
  "tn_sum [pooled logs] = tn_sum logs" "fn_sum [pooled logs] = fn_sum logs"
  by (simp_all add: pooled_def dict_get_def loss_sum_def nsignals_sum_def sample_size_sum_def
        correct_sum_def total_sum_def tp_sum_def fp_sum_def tn_sum_def fn_sum_def)

lemma pooled_returns: "snd (reduce_metrics [pooled logs]) = None"
  by (simp add: reduce_metrics_def log_auc_def pooled_def)

lemma log_auc_no_loss: "log_auc log0 logs = Inr cs \<Longrightarrow> LogScalar k v w r \<notin> set cs"
  by (auto simp: log_auc_def split: if_splits sum.splits)

text \<open>
  Claim C6, as amended. For every sequence, the first call of \<open>reduce_metrics\<close> registers,
  under \<open>loss\<close> and with three digits of rounding, the summed loss divided by the summed
  sample size, or by 1 when that sum is 0, and by \<open>ln 2\<close>; no later call registers a loss. The
  divisor is \<open>max(sample_size_sum, 1)\<close> whenever the summed sample size is not negative. The
  call is made for the empty sequence too, and before any exception.
\<close>

theorem reduce_metrics_loss:
  "\<exists>rest. fst (reduce_metrics logs) =
            LogScalar ''loss''
              (loss_sum logs
                 / (if sample_size_sum logs = 0 then 1 else of_int (sample_size_sum logs))
                 / ln 2)
              (of_int (sample_size_sum logs)) (Some 3) # rest
          \<and> (\<forall>v w r. LogScalar ''loss'' v w r \<notin> set rest)
          \<and> (0 \<le> sample_size_sum logs \<longrightarrow>
                (if sample_size_sum logs = 0 then 1 else of_int (sample_size_sum logs))
                  = (of_int (max (sample_size_sum logs) 1) :: real))"
proof -
  have call: "loss_call logs =
            LogScalar ''loss''
              (loss_sum logs
                 / (if sample_size_sum logs = 0 then 1 else of_int (sample_size_sum logs))
                 / ln 2)
              (of_int (sample_size_sum logs)) (Some 3)"
    by (simp add: loss_call_def Let_def)
  have mx: "0 \<le> sample_size_sum logs \<longrightarrow>
                (if sample_size_sum logs = 0 then 1 else of_int (sample_size_sum logs))
                  = (of_int (max (sample_size_sum logs) 1) :: real)"
    by (simp add: max_def)
  show ?thesis
  proof (cases logs)
    case Nil
    then show ?thesis using call mx by (simp add: reduce_metrics_def)
  next
    case (Cons log0 rest)
    show ?thesis
    proof (cases "log_auc log0 logs")
      case (Inl e)
      then show ?thesis using call mx Cons by (simp add: reduce_metrics_def)
    next
      case (Inr cs)
      then have "fst (reduce_metrics logs) =
          loss_call logs # cs @ count_calls logs @ ratio_calls logs"
        using Cons by (simp add: reduce_metrics_def)
      moreover have "\<forall>v w r. LogScalar ''loss'' v w r
                       \<notin> set (cs @ count_calls logs @ ratio_calls logs)"
        using log_auc_no_loss [OF Inr] by (simp add: count_calls_def ratio_calls_def)
      ultimately show ?thesis using call mx by simp
    qed
  qed
qed

lemma log_auc_error: "log_auc log0 logs = Inl e \<Longrightarrow> e = ValueError_zero_dim \<or> e = ValueError_need_array"
  by (auto simp: log_auc_def np_concatenate_def split: if_splits sum.splits)

text \<open>
  Claim C9. On the empty sequence \<open>reduce_metrics\<close> logs a loss of 0 and then raises
  \<open>IndexError\<close>, registering no other metric; and the empty sequence is the only one on which
  it raises \<open>IndexError\<close>.
\<close>

theorem reduce_metrics_empty_index_error:
  "reduce_metrics [] = ([LogScalar ''loss'' 0 0 (Some 3)], Some IndexError)
   \<and> (snd (reduce_metrics logs) = Some IndexError) = (logs = [])"
proof -
  have "snd (reduce_metrics logs) \<noteq> Some IndexError" if "logs \<noteq> []"
  proof -
    from that obtain log0 rest where c: "logs = log0 # rest" by (cases logs) auto
    show ?thesis
    proof (cases "log_auc log0 logs")
      case (Inl e)
      with log_auc_error [OF Inl] c show ?thesis by (auto simp: reduce_metrics_def)
    next
      case (Inr cs)
      with c show ?thesis by (simp add: reduce_metrics_def)
    qed
  qed
  moreover have "reduce_metrics [] = ([LogScalar ''loss'' 0 0 (Some 3)], Some IndexError)"
    by (simp add: reduce_metrics_def loss_call_def sample_size_sum_def loss_sum_def)
  ultimately show ?thesis by auto
qed

text \<open>
  Claim C8. \<open>logging_outputs_can_be_summed\<close> returns \<open>False\<close> on every call.
\<close>

theorem logging_outputs_never_summable:
  "logging_outputs_can_be_summed u = False"
  by (simp add: logging_outputs_can_be_summed_def)

lemma np_concatenate_all:
  "arrays \<noteq> [] \<Longrightarrow> None \<notin> set arrays
     \<Longrightarrow> np_concatenate arrays = Inr (concat (map (\<lambda>a. dict_get a []) arrays))"
  by (simp add: np_concatenate_def)


lemma log_auc_not_first: "\<not> carries log0 \<Longrightarrow> log_auc log0 logs = Inr []"
  by (auto simp: log_auc_def carries_def)

lemma log_auc_carried:
  assumes "\<forall>l\<in>set logs. carries l" and "log0 \<in> set logs"
  shows "log_auc log0 logs =
           Inr (LogCustom ''_auc'' (concat (map (\<lambda>l. dict_get (lo_y_score l) []) logs))
                                   (concat (map (\<lambda>l. dict_get (lo_y_true l) []) logs)) #
                (if concat (map (\<lambda>l. dict_get (lo_y_true l) []) logs) \<noteq> []
                 then [LogDerived ''auroc'' auroc_fn, LogDerived ''auprc'' auprc_fn]
                 else []))"
proof -
  from assms have ne: "map lo_y_true logs \<noteq> []" "map lo_y_score logs \<noteq> []" by auto
  from assms(1) have "None \<notin> set (map lo_y_true logs)" "None \<notin> set (map lo_y_score logs)"
    by (auto simp: carries_def)
  with ne have "np_concatenate (map lo_y_true logs) =
                  Inr (concat (map (\<lambda>l. dict_get (lo_y_true l) []) logs))"
    "np_concatenate (map lo_y_score logs) =
                  Inr (concat (map (\<lambda>l. dict_get (lo_y_score l) []) logs))"
    by (simp_all add: np_concatenate_all comp_def)
  moreover from assms have "carries log0" by simp
  ultimately show ?thesis
    by (simp add: log_auc_def carries_def)
qed



lemma reduce_metrics_carried:
  assumes "logs \<noteq> []" and "\<forall>l\<in>set logs. carries l"
  shows "reduce_metrics logs =
           (loss_call logs #
            LogCustom ''_auc'' (concat (map (\<lambda>l. dict_get (lo_y_score l) []) logs))
                               (concat (map (\<lambda>l. dict_get (lo_y_true l) []) logs)) #
            (if concat (map (\<lambda>l. dict_get (lo_y_true l) []) logs) \<noteq> []
             then [LogDerived ''auroc'' auroc_fn, LogDerived ''auprc'' auprc_fn]
             else [])
            @ count_calls logs @ ratio_calls logs, None)"
proof -
  from assms(1) obtain log0 rest where c: "logs = log0 # rest" by (cases logs) auto
  then have "log0 \<in> set logs" by simp
  from log_auc_carried [OF assms(2) this] c show ?thesis
    by (simp add: reduce_metrics_def)
qed

lemma reduce_metrics_not_first:
  assumes "\<not> carries log0"
  shows "reduce_metrics (log0 # rest) =
           (loss_call (log0 # rest) # count_calls (log0 # rest) @ ratio_calls (log0 # rest), None)"
  by (simp add: reduce_metrics_def log_auc_not_first [OF assms])


lemma reduce_metrics_homogeneous_returns:
  assumes "logs \<noteq> []" and "(\<forall>l\<in>set logs. carries l) \<or> (\<forall>l\<in>set logs. \<not> carries l)"
  shows "snd (reduce_metrics logs) = None"
proof -
  from assms(1) obtain log0 rest where c: "logs = log0 # rest" by (cases logs) auto
  from assms(2) show ?thesis
  proof
    assume "\<forall>l\<in>set logs. carries l"
    from reduce_metrics_carried [OF assms(1) this] show ?thesis by simp
  next
    assume "\<forall>l\<in>set logs. \<not> carries l"
    with c have "\<not> carries log0" by simp
    from reduce_metrics_not_first [OF this] c show ?thesis by simp
  qed
qed



text \<open>
  Claim C5, as amended. Let the sequence be non-empty, with either every entry carrying both
  arrays or no entry carrying both, and with non-negative sums of \<open>tp\<close>, \<open>fp\<close> and \<open>fn\<close>. Then
  \<open>reduce_metrics\<close> raises nothing. When the summed total is not positive it registers none of
  \<open>accuracy\<close>, \<open>precision\<close> and \<open>recall\<close>, so a fresh sink reports none of them. When the summed
  total is positive, the accuracy read back is the rounded ratio, the precision is NaN exactly
  when \<open>tp_sum + fp_sum = 0\<close> and the recall is NaN exactly when \<open>tp_sum + fn_sum = 0\<close>, each
  being the rounded ratio otherwise. On any meters the three registered functions return NaN
  exactly when their denominator is not positive.
\<close>

theorem reduce_metrics_ratios:
  assumes "logs \<noteq> []"
    and "(\<forall>l\<in>set logs. carries l) \<or> (\<forall>l\<in>set logs. \<not> carries l)"
    and "0 \<le> tp_sum logs" and "0 \<le> fp_sum logs" and "0 \<le> fn_sum logs"
  shows "snd (reduce_metrics logs) = None
       \<and> (total_sum logs \<le> 0 \<longrightarrow>
            derived_value (fst (reduce_metrics logs)) au ap ''accuracy'' = None
          \<and> derived_value (fst (reduce_metrics logs)) au ap ''precision'' = None
          \<and> derived_value (fst (reduce_metrics logs)) au ap ''recall'' = None)
       \<and> (total_sum logs > 0 \<longrightarrow>
            derived_value (fst (reduce_metrics logs)) au ap ''accuracy''
              = Some (Num (safe_round (of_int (correct_sum logs) / total_sum logs) 5))
          \<and> derived_value (fst (reduce_metrics logs)) au ap ''precision''
              = Some (if tp_sum logs + fp_sum logs = 0 then NaN
                      else Num (safe_round
                             (of_int (tp_sum logs) / of_int (tp_sum logs + fp_sum logs)) 5))
          \<and> derived_value (fst (reduce_metrics logs)) au ap ''recall''
              = Some (if tp_sum logs + fn_sum logs = 0 then NaN
                      else Num (safe_round
                             (of_int (tp_sum logs) / of_int (tp_sum logs + fn_sum logs)) 5)))
       \<and> (accuracy_fn m = NaN) = (sum_of m ''_total'' \<le> 0)
       \<and> (precision_fn m = NaN) = (sum_of m ''_tp'' + sum_of m ''_fp'' \<le> 0)
       \<and> (recall_fn m = NaN) = (sum_of m ''_tp'' + sum_of m ''_fn'' \<le> 0)"
proof -
  have ret: "snd (reduce_metrics logs) = None"
    by (rule reduce_metrics_homogeneous_returns [OF assms(1,2)])
  have p: "(tp_sum logs + fp_sum logs > 0) = (tp_sum logs + fp_sum logs \<noteq> 0)"
    and r: "(tp_sum logs + fn_sum logs > 0) = (tp_sum logs + fn_sum logs \<noteq> 0)"
    using assms(3-5) by linarith+
  show ?thesis
    using p r
    by (simp add: ret accuracy_reduce [OF ret] precision_reduce [OF ret] recall_reduce [OF ret]
          accuracy_fn_def precision_fn_def recall_fn_def not_less)
qed


lemmas sums_eval =
  loss_sum_def nsignals_sum_def sample_size_sum_def correct_sum_def total_sum_def
  tp_sum_def fp_sum_def tn_sum_def fn_sum_def dict_get_def

lemmas reduce_eval =
  reduce_metrics_def log_auc_def np_concatenate_def loss_call_def count_calls_def
  ratio_calls_def Let_def sums_eval

lemmas round_eval = safe_round_def round_half_even_def Let_def

theorem reduce_metrics_loss_witness:
  "\<exists>rest. fst (reduce_metrics
       [stats (3 / 2) 10 10 7 10 3 1 4 2, stats (1 / 2) 4 4 3 4 1 0 2 1])
       = LogScalar ''loss'' (2 / 14 / ln 2) 14 (Some 3) # rest
     \<and> (\<forall>v w r. LogScalar ''loss'' v w r \<notin> set rest)"
proof -
  let ?logs = "[stats (3 / 2) 10 10 7 10 3 1 4 2, stats (1 / 2) 4 4 3 4 1 0 2 1]"
  have s: "sample_size_sum ?logs = 14" and l: "loss_sum ?logs = 2"
    by (simp_all add: sums_eval)
  from reduce_metrics_loss [of ?logs] show ?thesis
    by (simp add: s l)
qed

text \<open>
  Claim C6 as stated fails on a negative sample size: with a summed loss of 1 and a summed
  sample size of \<open>-2\<close>, \<open>sample_size or 1\<close> is \<open>-2\<close>, so the loss is divided by \<open>-2\<close> and not by
  \<open>max(-2, 1) = 1\<close>.
\<close>

theorem reduce_metrics_loss_negative_counterexample:
  "fst (reduce_metrics [stats 1 1 (- 2) 1 1 1 0 0 0])
     = LogScalar ''loss'' (1 / (- 2) / ln 2) (- 2) (Some 3)
       # count_calls [stats 1 1 (- 2) 1 1 1 0 0 0] @ ratio_calls [stats 1 1 (- 2) 1 1 1 0 0 0]
   \<and> (1 / (- 2) / ln 2 :: real) \<noteq> 1 / of_int (max (- 2) 1) / ln 2"
proof -
  have "(0::real) < ln 2" by simp
  then have "(1 / (- 2) / ln 2 :: real) < 0" and "(0::real) < 1 / of_int (max (- 2) 1) / ln 2"
    by (simp_all add: divide_neg_pos)
  then have "(1 / (- 2) / ln 2 :: real) \<noteq> 1 / of_int (max (- 2) 1) / ln 2"
    by linarith
  moreover have "fst (reduce_metrics [stats 1 1 (- 2) 1 1 1 0 0 0])
     = LogScalar ''loss'' (1 / (- 2) / ln 2) (- 2) (Some 3)
       # count_calls [stats 1 1 (- 2) 1 1 1 0 0 0] @ ratio_calls [stats 1 1 (- 2) 1 1 1 0 0 0]"
    by (simp add: reduce_metrics_def log_auc_def loss_call_def sample_size_sum_def
          loss_sum_def dict_get_def)
  ultimately show ?thesis by blast
qed


text \<open>
  Claim C5 as stated fails on a bundle of zero statistics: the summed total is 0, the reducer
  returns, and \<open>accuracy\<close>, \<open>precision\<close> and \<open>recall\<close> are not registered, so that none of them
  reads NaN.
\<close>

theorem reduce_metrics_zero_total_counterexample:
  "snd (reduce_metrics [stats 0 0 0 0 0 0 0 0 0]) = None
   \<and> total_sum [stats 0 0 0 0 0 0 0 0 0] = 0
   \<and> derived_value (fst (reduce_metrics [stats 0 0 0 0 0 0 0 0 0]))
        (\<lambda>k. NaN) (\<lambda>k. NaN) ''accuracy'' = None
   \<and> derived_value (fst (reduce_metrics [stats 0 0 0 0 0 0 0 0 0]))
        (\<lambda>k. NaN) (\<lambda>k. NaN) ''precision'' = None
   \<and> derived_value (fst (reduce_metrics [stats 0 0 0 0 0 0 0 0 0]))
        (\<lambda>k. NaN) (\<lambda>k. NaN) ''recall'' = None"
  by (simp add: reduce_eval derived_value_def)

theorem reduce_metrics_ratios_witness:
  "derived_value (fst (reduce_metrics
        [stats (3 / 2) 10 10 7 10 3 1 4 2, stats (1 / 2) 4 4 3 4 1 0 2 1]))
        (\<lambda>k. NaN) (\<lambda>k. NaN) ''precision'' = Some (Num (8 / 10))
   \<and> derived_value (fst (reduce_metrics
        [stats (3 / 2) 10 10 7 10 3 1 4 2, stats (1 / 2) 4 4 3 4 1 0 2 1]))
        (\<lambda>k. NaN) (\<lambda>k. NaN) ''recall'' = Some (Num (57143 / 100000))
   \<and> derived_value (fst (reduce_metrics
        [stats (3 / 2) 10 10 7 10 3 1 4 2, stats (1 / 2) 4 4 3 4 1 0 2 1]))
        (\<lambda>k. NaN) (\<lambda>k. NaN) ''accuracy'' = Some (Num (71429 / 100000))
   \<and> derived_value (fst (reduce_metrics [stats 1 2 2 2 2 0 0 2 0]))
        (\<lambda>k. NaN) (\<lambda>k. NaN) ''precision'' = Some NaN"
proof -
  let ?logs = "[stats (3 / 2) 10 10 7 10 3 1 4 2, stats (1 / 2) 4 4 3 4 1 0 2 1]"
  let ?neg = "[stats 1 2 2 2 2 0 0 2 0]"
  have ne: "?logs \<noteq> []" "?neg \<noteq> []" by simp_all
  have hom: "(\<forall>l\<in>set ?logs. carries l) \<or> (\<forall>l\<in>set ?logs. \<not> carries l)"
    "(\<forall>l\<in>set ?neg. carries l) \<or> (\<forall>l\<in>set ?neg. \<not> carries l)"
    by (simp_all add: carries_def)
  have sums: "tp_sum ?logs = 4" "fp_sum ?logs = 1" "fn_sum ?logs = 3" "total_sum ?logs = 14"
    "correct_sum ?logs = 10"
    "tp_sum ?neg = 0" "fp_sum ?neg = 0" "fn_sum ?neg = 0" "total_sum ?neg = 2"
    by (simp_all add: sums_eval)
  have rnd: "safe_round (4 / 5) 5 = 8 / 10" "safe_round (4 / 7) 5 = 57143 / 100000"
    "safe_round (5 / 7) 5 = 71429 / 100000"
    by (simp_all add: round_eval)
  have nn: "0 \<le> tp_sum ?logs" "0 \<le> fp_sum ?logs" "0 \<le> fn_sum ?logs"
    "0 \<le> tp_sum ?neg" "0 \<le> fp_sum ?neg" "0 \<le> fn_sum ?neg"
    by (simp_all add: sums)
  from reduce_metrics_ratios [OF ne(1) hom(1) nn(1-3), of "\<lambda>k. NaN" "\<lambda>k. NaN"]
    reduce_metrics_ratios [OF ne(2) hom(2) nn(4-6), of "\<lambda>k. NaN" "\<lambda>k. NaN"]
  show ?thesis
    by (simp add: sums rnd)
qed

text \<open>
  Claim C1, as amended. Take a non-empty sequence in which either every entry carries the raw
  targets and scores or no entry carries both, and any permutation of it. \<open>reduce_metrics\<close>
  returns on both, and after the loss both runs register the same seven scalars: the sums
  \<open>nsignals\<close>, \<open>_correct\<close>, \<open>_total\<close>, \<open>_tp\<close>, \<open>_fp\<close>, \<open>_tn\<close> and \<open>_fn\<close> of the sequence. The
  accuracy read back is the rounded ratio of the summed \<open>correct\<close> to the summed total for
  both runs, and for the run on the one bundle that holds the pooled counts. Nothing is said
  of the value of the summed loss, a sum of floats.
\<close>

theorem reduce_metrics_order_independent:
  assumes "mset logs' = mset logs" and "logs \<noteq> []"
    and "(\<forall>l\<in>set logs. carries l) \<or> (\<forall>l\<in>set logs. \<not> carries l)"
  shows "snd (reduce_metrics logs) = None \<and> snd (reduce_metrics logs') = None
       \<and> (\<exists>v. scalar_calls (fst (reduce_metrics logs)) =
              LogScalar ''loss'' v (of_int (sample_size_sum logs)) (Some 3) #
              [LogScalar ''nsignals'' (of_int (nsignals_sum logs)) 1 None,
               LogScalar ''_correct'' (of_int (correct_sum logs)) 1 None,
               LogScalar ''_total'' (total_sum logs) 1 None,
               LogScalar ''_tp'' (of_int (tp_sum logs)) 1 None,
               LogScalar ''_fp'' (of_int (fp_sum logs)) 1 None,
               LogScalar ''_tn'' (of_int (tn_sum logs)) 1 None,
               LogScalar ''_fn'' (of_int (fn_sum logs)) 1 None])
       \<and> (\<exists>v. scalar_calls (fst (reduce_metrics logs')) =
              LogScalar ''loss'' v (of_int (sample_size_sum logs)) (Some 3) #
              [LogScalar ''nsignals'' (of_int (nsignals_sum logs)) 1 None,
               LogScalar ''_correct'' (of_int (correct_sum logs)) 1 None,
               LogScalar ''_total'' (total_sum logs) 1 None,
               LogScalar ''_tp'' (of_int (tp_sum logs)) 1 None,
               LogScalar ''_fp'' (of_int (fp_sum logs)) 1 None,
               LogScalar ''_tn'' (of_int (tn_sum logs)) 1 None,
               LogScalar ''_fn'' (of_int (fn_sum logs)) 1 None])
       \<and> derived_value (fst (reduce_metrics logs)) au ap ''accuracy'' =
             (if total_sum logs > 0
              then Some (Num (safe_round (of_int (correct_sum logs) / total_sum logs) 5))
              else None)
       \<and> derived_value (fst (reduce_metrics logs')) au ap ''accuracy'' =
             (if total_sum logs > 0
              then Some (Num (safe_round (of_int (correct_sum logs) / total_sum logs) 5))
              else None)
       \<and> derived_value (fst (reduce_metrics [pooled logs])) au ap ''accuracy'' =
             (if total_sum logs > 0
              then Some (Num (safe_round (of_int (correct_sum logs) / total_sum logs) 5))
              else None)"
proof -
  from assms(1) have sets: "set logs' = set logs"
    by (rule mset_eq_setD)
  from assms(1,2) have ne': "logs' \<noteq> []"
    by auto
  have ret: "snd (reduce_metrics logs) = None"
    by (rule reduce_metrics_homogeneous_returns [OF assms(2,3)])
  have ret': "snd (reduce_metrics logs') = None"
    using assms(3) by (intro reduce_metrics_homogeneous_returns [OF ne']) (simp add: sets)
  have sc: "scalar_calls (fst (reduce_metrics logs)) = loss_call logs # count_calls logs"
    by (rule scalar_calls_reduce [OF ret])
  have sc': "scalar_calls (fst (reduce_metrics logs')) = loss_call logs' # count_calls logs"
    by (simp add: scalar_calls_reduce [OF ret'] calls_permute [OF assms(1)])
  have lc: "\<exists>v. loss_call logs = LogScalar ''loss'' v (of_int (sample_size_sum logs)) (Some 3)"
    by (simp add: loss_call_def Let_def)
  have lc': "\<exists>v. loss_call logs' = LogScalar ''loss'' v (of_int (sample_size_sum logs)) (Some 3)"
    by (simp add: loss_call_def Let_def sums_permute [OF assms(1)])
  have acc: "derived_value (fst (reduce_metrics logs)) au ap ''accuracy'' =
             (if total_sum logs > 0
              then Some (Num (safe_round (of_int (correct_sum logs) / total_sum logs) 5))
              else None)"
    by (rule accuracy_reduce [OF ret])
  have acc': "derived_value (fst (reduce_metrics logs')) au ap ''accuracy'' =
             (if total_sum logs > 0
              then Some (Num (safe_round (of_int (correct_sum logs) / total_sum logs) 5))
              else None)"
    by (simp add: accuracy_reduce [OF ret'] sums_permute [OF assms(1)])
  have accp: "derived_value (fst (reduce_metrics [pooled logs])) au ap ''accuracy'' =
             (if total_sum logs > 0
              then Some (Num (safe_round (of_int (correct_sum logs) / total_sum logs) 5))
              else None)"
    by (simp add: accuracy_reduce [OF pooled_returns] pooled_sums)
  from lc lc' show ?thesis
    unfolding sc sc' using ret ret' acc acc' accp
    by (simp add: count_calls_def)
qed

theorem reduce_metrics_order_independent_witness:
  "scalar_calls (fst (reduce_metrics [stats (1 / 2) 4 4 3 4 1 0 2 1, stats (3 / 2) 10 10 7 10 3 1 4 2]))
     = scalar_calls (fst (reduce_metrics [stats (3 / 2) 10 10 7 10 3 1 4 2, stats (1 / 2) 4 4 3 4 1 0 2 1]))
   \<and> scalar_calls (fst (reduce_metrics [stats (3 / 2) 10 10 7 10 3 1 4 2, stats (1 / 2) 4 4 3 4 1 0 2 1]))
     = [LogScalar ''loss'' (2 / 14 / ln 2) 14 (Some 3),
        LogScalar ''nsignals'' 14 1 None, LogScalar ''_correct'' 10 1 None,
        LogScalar ''_total'' 14 1 None, LogScalar ''_tp'' 4 1 None, LogScalar ''_fp'' 1 1 None,
        LogScalar ''_tn'' 6 1 None, LogScalar ''_fn'' 3 1 None]
   \<and> derived_value (fst (reduce_metrics [stats (1 / 2) 4 4 3 4 1 0 2 1, stats (3 / 2) 10 10 7 10 3 1 4 2])) (\<lambda>k. NaN) (\<lambda>k. NaN) ''accuracy''
     = Some (Num (71429 / 100000))
   \<and> derived_value (fst (reduce_metrics [pooled [stats (3 / 2) 10 10 7 10 3 1 4 2, stats (1 / 2) 4 4 3 4 1 0 2 1]])) (\<lambda>k. NaN) (\<lambda>k. NaN) ''accuracy''
     = Some (Num (71429 / 100000))"
proof -
  let ?logs = "[stats (3 / 2) 10 10 7 10 3 1 4 2, stats (1 / 2) 4 4 3 4 1 0 2 1]"
  let ?logs' = "[stats (1 / 2) 4 4 3 4 1 0 2 1, stats (3 / 2) 10 10 7 10 3 1 4 2]"
  have perm: "mset ?logs' = mset ?logs" by (simp add: add_mset_commute)
  have ne: "?logs \<noteq> []" by simp
  have hom: "(\<forall>l\<in>set ?logs. carries l) \<or> (\<forall>l\<in>set ?logs. \<not> carries l)"
    by (simp add: carries_def)
  have sums: "nsignals_sum ?logs = 14" "correct_sum ?logs = 10" "total_sum ?logs = 14"
    "tp_sum ?logs = 4" "fp_sum ?logs = 1" "tn_sum ?logs = 6" "fn_sum ?logs = 3"
    "sample_size_sum ?logs = 14"
    by (simp_all add: sums_eval)
  have rnd: "safe_round (5 / 7) 5 = 71429 / 100000"
    by (simp add: round_eval)
  have l: "loss_call ?logs = LogScalar ''loss'' (2 / 14 / ln 2) 14 (Some 3)"
    "loss_call ?logs' = LogScalar ''loss'' (2 / 14 / ln 2) 14 (Some 3)"
    by (simp_all add: loss_call_def sums_eval)
  have r: "snd (reduce_metrics ?logs) = None" "snd (reduce_metrics ?logs') = None"
    by (simp_all add: reduce_metrics_def log_auc_def)
  from reduce_metrics_order_independent [OF perm ne hom, of "\<lambda>k. NaN" "\<lambda>k. NaN"]
  show ?thesis
    by (simp add: sums rnd scalar_calls_reduce [OF r(1)] scalar_calls_reduce [OF r(2)] l
          count_calls_def sums_eval)
qed

text \<open>
  Claim C1 as stated fails on a sequence that mixes an entry with the raw arrays and one
  without. With the entry that carries them first, \<open>np.concatenate\<close> raises on the default \<open>0\<close>
  of the other entry after the loss alone was registered; in the other order the first entry
  carries nothing, so the run returns and registers all the sums.
\<close>

theorem reduce_metrics_mixed_order_counterexample:
  "reduce_metrics [(stats 1 1 0 0 1 0 1 0 0)\<lparr>lo_y_true := Some [0], lo_y_score := Some [6 / 10]\<rparr>, stats 1 2 2 1 2 1 0 0 1]
     = ([LogScalar ''loss'' (2 / 2 / ln 2) 2 (Some 3)], Some ValueError_zero_dim)
   \<and> snd (reduce_metrics [stats 1 2 2 1 2 1 0 0 1, (stats 1 1 0 0 1 0 1 0 0)\<lparr>lo_y_true := Some [0], lo_y_score := Some [6 / 10]\<rparr>]) = None
   \<and> scalar_calls (fst (reduce_metrics [stats 1 2 2 1 2 1 0 0 1, (stats 1 1 0 0 1 0 1 0 0)\<lparr>lo_y_true := Some [0], lo_y_score := Some [6 / 10]\<rparr>]))
     = [LogScalar ''loss'' (2 / 2 / ln 2) 2 (Some 3),
        LogScalar ''nsignals'' 3 1 None, LogScalar ''_correct'' 1 1 None,
        LogScalar ''_total'' 3 1 None, LogScalar ''_tp'' 1 1 None, LogScalar ''_fp'' 1 1 None,
        LogScalar ''_tn'' 0 1 None, LogScalar ''_fn'' 1 1 None]"
  by (simp add: reduce_eval ratio_calls_def)

section \<open>Properties of the preprocessing script\<close>


lemma py_slice_length:
  assumes "0 \<le> start" and "start \<le> stop" and "stop \<le> int (length xs)"
  shows "length (py_slice xs start stop) = nat (stop - start)"
  using assms by (auto simp: py_slice_def Let_def min_def)

lemma concatenate_rows_zeros:
  "concatenate_rows [row] (replicate 11 (replicate 2500 0)) =
     (if length row = 2500 then Inr (row # replicate 11 (replicate 2500 0))
      else Inl ValueError_shape)"
  by (auto simp: concatenate_rows_def list_all_iff)

lemma crop_length:
  assumes "0 \<le> sec" and "sec * 500 < int (length record)"
  shows "length (py_slice record (r mod (int (length record) - sec * 500))
                   (r mod (int (length record) - sec * 500) + sec * 500)) = nat (sec * 500)"
proof -
  let ?high = "int (length record) - sec * 500"
  from assms(2) have "0 < ?high" by simp
  then have "0 \<le> r mod ?high" "r mod ?high < ?high" by simp_all
  with assms(1) show ?thesis
    by (subst py_slice_length) auto
qed

lemma convert_file_long:
  assumes "0 \<le> sec" and "sec * 500 < int (length record)"
  shows "convert_file sec 500 record r =
           (if sec = 5
            then Inr (Some (py_slice record (r mod (int (length record) - sec * 500))
                              (r mod (int (length record) - sec * 500) + sec * 500)
                            # replicate 11 (replicate 2500 0)))
            else Inl ValueError_shape)"
proof -
  let ?high = "int (length record) - sec * 500"
  let ?start = "r mod ?high"
  from assms(2) have high: "0 < ?high" by simp
  have "length (py_slice record ?start (?start + sec * 500)) = nat (sec * 500)"
    by (rule crop_length [OF assms])
  moreover from assms(1) have "(nat (sec * 500) = 2500) = (sec = 5)" by auto
  ultimately show ?thesis using high
    by (simp add: convert_file_def randint_def Let_def concatenate_rows_zeros)
qed

text \<open>
  Claim C10, as amended. For a 500 Hz file and a value of \<open>--sec\<close> that is not negative: when
  the value is not 5 the conversion raises and writes nothing, with the range error of
  \<open>randint\<close> when the record has at most \<open>sec * 500\<close> samples and the shape mismatch of the
  concatenation otherwise; when it is 5 and the record has more than 2500 samples, the file is
  written with a crop of 2500 samples above the eleven rows of zeros. A file of another
  sample rate is skipped.
\<close>

theorem convert_file_seconds:
  assumes "0 \<le> sec"
  shows "(sec \<noteq> 5 \<longrightarrow>
            convert_file sec 500 record r =
              (if int (length record) \<le> sec * 500 then Inl ValueError_high
               else Inl ValueError_shape))
       \<and> (sec = 5 \<and> 2500 < length record \<longrightarrow>
            (\<exists>row. length row = 2500 \<and>
               convert_file sec 500 record r =
                 Inr (Some (row # replicate 11 (replicate 2500 0)))))
       \<and> (sample_rate \<noteq> 500 \<longrightarrow> convert_file sec sample_rate record r = Inr None)"
proof (intro conjI impI)
  assume "sec \<noteq> 5"
  show "convert_file sec 500 record r =
          (if int (length record) \<le> sec * 500 then Inl ValueError_high
           else Inl ValueError_shape)"
  proof (cases "int (length record) \<le> sec * 500")
    case True
    then show ?thesis by (simp add: convert_file_def randint_def)
  next
    case False
    then have "sec * 500 < int (length record)" by simp
    from convert_file_long [OF assms this] \<open>sec \<noteq> 5\<close> False show ?thesis by simp
  qed
next
  assume a: "sec = 5 \<and> 2500 < length record"
  then have long: "sec * 500 < int (length record)" by simp
  let ?start = "r mod (int (length record) - sec * 500)"
  let ?row = "py_slice record ?start (?start + sec * 500)"
  from crop_length [OF assms long, of r] a have "length ?row = 2500"
    by simp
  moreover from convert_file_long [OF assms long] a
  have "convert_file sec 500 record r = Inr (Some (?row # replicate 11 (replicate 2500 0)))"
    by simp
  ultimately show "\<exists>row. length row = 2500 \<and>
               convert_file sec 500 record r =
                 Inr (Some (row # replicate 11 (replicate 2500 0)))"
    by blast
next
  assume "sample_rate \<noteq> 500"
  then show "convert_file sec sample_rate record r = Inr None"
    by (simp add: convert_file_def)
qed

theorem convert_file_seconds_witness:
  "convert_file 4 500 (replicate 10000 0) 7 = Inl ValueError_shape
   \<and> convert_file 25 500 (replicate 10000 0) 7 = Inl ValueError_high
   \<and> (\<exists>row. length row = 2500 \<and>
         convert_file 5 500 (replicate 10000 0) 7 =
           Inr (Some (row # replicate 11 (replicate 2500 0))))"
proof -
  have "(0::int) \<le> 4" "(0::int) \<le> 25" "(0::int) \<le> 5" by simp_all
  from convert_file_seconds [OF this(1), of "replicate 10000 0" 7 500]
    convert_file_seconds [OF this(2), of "replicate 10000 0" 7 500]
    convert_file_seconds [OF this(3), of "replicate 10000 0" 7 500]
  show ?thesis by simp
qed

text \<open>
  Claim C10 as stated fails twice. With \<open>--sec 25\<close> on a record of 10000 samples the error is
  the range error of \<open>randint\<close>, raised before any array is concatenated. With \<open>--sec -1\<close> on a
  record of 3000 samples and the draw 100, the crop is \<open>record[100:-400]\<close>, which has 2500
  samples, and the file is written.
\<close>

theorem convert_file_seconds_counterexample:
  "convert_file 25 500 (replicate 10000 0) 7 = Inl ValueError_high
   \<and> convert_file (- 1) 500 (replicate 3000 0) 100 =
       Inr (Some (replicate 2500 0 # replicate 11 (replicate 2500 0)))"
  by (simp add: convert_file_def randint_def py_slice_def concatenate_rows_def Let_def
        list_all_iff)

end
